theory Spec2Isabelle
  imports Complex_Main
begin

section \<open>Business-cycle comparison (midterm1-4,5.py)\<close>

subsection \<open>Alignment to the common period (lines 14-29)\<close>

text \<open>
  A series is a list of (timestamp, value) pairs; timestamps are integers (a date as a
  day number) and values are real numbers with the missing entries already dropped
  (lines 15 and 21). Lines 16 and 22 read \<open>index[0]\<close>, which raises IndexError on an
  empty series, so the alignment is reached with two non-empty series only.
\<close>

type_synonym series = "(int \<times> real) list"

datatype py_error = IndexError

definition index_min :: "series \<Rightarrow> int" where
  "index_min s = Min (set (map fst s))"

definition index_max :: "series \<Rightarrow> int" where
  "index_max s = Max (set (map fst s))"

text \<open>
  \<open>s[start:stop]\<close> on a series with a sorted time index is a label slice: it keeps the
  entries whose timestamp lies between the two labels, both ends included, and is empty
  when \<open>start\<close> is after \<open>stop\<close>. Nothing is raised.
\<close>

definition label_slice :: "series \<Rightarrow> int \<Rightarrow> int \<Rightarrow> series" where
  "label_slice s start stop = filter (\<lambda>p. start \<le> fst p \<and> fst p \<le> stop) s"

definition common_start :: "series \<Rightarrow> series \<Rightarrow> int" where
  "common_start spain_gdp japan_gdp = max (index_min spain_gdp) (index_min japan_gdp)"

definition common_end :: "series \<Rightarrow> series \<Rightarrow> int" where
  "common_end spain_gdp japan_gdp = min (index_max spain_gdp) (index_max japan_gdp)"

definition align_common_range :: "series \<Rightarrow> series \<Rightarrow> py_error + (series \<times> series)" where
  "align_common_range spain_gdp japan_gdp =
     (if spain_gdp = [] \<or> japan_gdp = [] then Inl IndexError
      else
        let spain_gdp_aligned =
              label_slice spain_gdp (common_start spain_gdp japan_gdp)
                (common_end spain_gdp japan_gdp);
            japan_gdp_aligned =
              label_slice japan_gdp (common_start spain_gdp japan_gdp)
                (common_end spain_gdp japan_gdp)
        in Inr (spain_gdp_aligned, japan_gdp_aligned))"

subsection \<open>The call of the filter (lines 41-42)\<close>

text \<open>
  \<open>hpfilter\<close> is imported from a library and is not part of the repository's sources.
  In the models of the two scripts it is a parameter: a function from the values of a
  series and the smoothing parameter to a pair of value lists. Which component of the
  pair is the trend is the library's matter; the scripts only bind the pair to names.
  Line 41 binds the first component to \<open>spain_trend\<close> and the second to \<open>spain_cycle\<close>,
  line 42 does the same for Japan, both with \<open>lamb=1600\<close>.
\<close>

type_synonym hpfilter_fn = "real list \<Rightarrow> real \<Rightarrow> real list \<times> real list"

record midterm_vars =
  spain_trend :: "real list"
  spain_cycle :: "real list"
  japan_trend :: "real list"
  japan_cycle :: "real list"

definition midterm_hpfilter :: "hpfilter_fn \<Rightarrow> real list \<Rightarrow> real list \<Rightarrow> midterm_vars" where
  "midterm_hpfilter hpfilter log_spain_gdp log_japan_gdp =
     (let (spain_trend', spain_cycle') = hpfilter log_spain_gdp 1600;
          (japan_trend', japan_cycle') = hpfilter log_japan_gdp 1600
      in \<lparr> spain_trend = spain_trend', spain_cycle = spain_cycle',
           japan_trend = japan_trend', japan_cycle = japan_cycle' \<rparr>)"

subsection \<open>Standard deviations and their ratio (lines 49-55)\<close>

text \<open>
  \<open>Series.std()\<close> is the sample standard deviation (divisor \<open>n - 1\<close>) and returns a
  double-precision scalar; it is NaN for fewer than two observations. The quotient of
  line 55 is therefore a floating-point division, which does not raise on a zero
  divisor: it yields an infinity, or NaN for \<open>0 / 0\<close>. The model keeps exact real
  arithmetic for finite values and adds the three special values; signed zeros and
  rounding are not modelled.
\<close>

datatype np_float = Finite real | PosInf | NegInf | NaN

definition mean :: "real list \<Rightarrow> real" where
  "mean xs = sum_list xs / real (length xs)"

definition sample_variance :: "real list \<Rightarrow> real" where
  "sample_variance xs = sum_list (map (\<lambda>x. (x - mean xs)\<^sup>2) xs) / real (length xs - 1)"

definition series_std :: "real list \<Rightarrow> np_float" where
  "series_std xs = (if length xs < 2 then NaN else Finite (sqrt (sample_variance xs)))"

fun np_divide :: "np_float \<Rightarrow> np_float \<Rightarrow> np_float" where
  "np_divide NaN _ = NaN"
| "np_divide _ NaN = NaN"
| "np_divide (Finite a) (Finite b) =
     (if b \<noteq> 0 then Finite (a / b)
      else if a = 0 then NaN
      else if a > 0 then PosInf else NegInf)"
| "np_divide (Finite a) _ = Finite 0"
| "np_divide PosInf (Finite b) = (if b \<ge> 0 then PosInf else NegInf)"
| "np_divide NegInf (Finite b) = (if b \<ge> 0 then NegInf else PosInf)"
| "np_divide _ _ = NaN"

definition std_ratio :: "real list \<Rightarrow> real list \<Rightarrow> np_float" where
  "std_ratio spain_cycle' japan_cycle' =
     (let spain_cycle_std = series_std spain_cycle';
          japan_cycle_std = series_std japan_cycle'
      in np_divide spain_cycle_std japan_cycle_std)"

subsection \<open>Correlation strength label (lines 66-79)\<close>

text \<open>
  The script maps the correlation coefficient of the two cycle series to one of seven
  labels with an if/elif chain. The labels are string literals in the source; they are
  modelled as the constructors of a datatype, in the order of the chain (lines 67, 69,
  71, 73, 75, 77 and 79). The correlation is a real number here; a NaN correlation
  (every comparison false, hence the last label) is outside the model.
\<close>

datatype strength =
    VeryStrongPositive
  | StrongPositive
  | ModeratePositive
  | WeakPositive
  | Negligible
  | WeakNegative
  | ModerateOrStrongerNegative

definition correlation_strength :: "real \<Rightarrow> strength" where
  "correlation_strength correlation =
     (if correlation > 0.7 then VeryStrongPositive
      else if correlation > 0.5 then StrongPositive
      else if correlation > 0.3 then ModeratePositive
      else if correlation > 0.1 then WeakPositive
      else if correlation > -0.1 then Negligible
      else if correlation > -0.3 then WeakNegative
      else ModerateOrStrongerNegative)"

section \<open>Sensitivity to the smoothing parameter (project1.py)\<close>

text \<open>
  Lines 18-25: the loop over \<open>lambdas\<close> calls the filter once per value and stores the
  two components in the dictionaries \<open>trends\<close> and \<open>cycles\<close>, keyed by the value. Line
  23 binds the first component of the pair to \<open>cycle\<close> and the second to \<open>trend\<close>.
  The state of the loop is the pair of dictionaries.
\<close>

record project1_vars =
  trends :: "int \<rightharpoonup> real list"
  cycles :: "int \<rightharpoonup> real list"

definition lambdas :: "int list" where
  "lambdas = [10, 100, 1600]"

definition project1_step :: "hpfilter_fn \<Rightarrow> real list \<Rightarrow> int \<Rightarrow> project1_vars \<Rightarrow> project1_vars" where
  "project1_step hpfilter log_gdp lam vars =
     (let (cycle', trend') = hpfilter log_gdp (real_of_int lam)
      in vars \<lparr> trends := (trends vars)(lam \<mapsto> trend'),
                cycles := (cycles vars)(lam \<mapsto> cycle') \<rparr>)"

definition project1_loop ::
  "hpfilter_fn \<Rightarrow> real list \<Rightarrow> int list \<Rightarrow> project1_vars \<Rightarrow> project1_vars" where
  "project1_loop hpfilter log_gdp lams vars = fold (project1_step hpfilter log_gdp) lams vars"

definition project1_hpfilter :: "hpfilter_fn \<Rightarrow> real list \<Rightarrow> project1_vars" where
  "project1_hpfilter hpfilter log_gdp =
     project1_loop hpfilter log_gdp lambdas \<lparr> trends = Map.empty, cycles = Map.empty \<rparr>"

section \<open>Growth accounting (midterm2.py)\<close>

text \<open>
  The class \<open>GrowthAccounting\<close> (lines 27-49): the constructor stores the period, the
  capital share \<open>alpha\<close>, the labor share \<open>beta = 1 - alpha\<close> and the list of
  countries. No other method assigns to a field.
\<close>

record GrowthAccounting =
  start_year :: int
  end_year :: int
  alpha :: real
  beta :: real
  countries :: "string list"

definition GrowthAccounting_init :: "int \<Rightarrow> int \<Rightarrow> real \<Rightarrow> GrowthAccounting" where
  "GrowthAccounting_init start_year' end_year' alpha' =
     \<lparr> start_year = start_year',
       end_year = end_year',
       alpha = alpha',
       beta = 1 - alpha',
       countries =
         [''Australia'', ''Austria'', ''Belgium'', ''Canada'', ''Denmark'',
          ''Finland'', ''France'', ''Germany'', ''Greece'', ''Iceland'',
          ''Ireland'', ''Italy'', ''Japan'', ''Netherlands'', ''New Zealand'',
          ''Norway'', ''Portugal'', ''Spain'', ''Sweden'', ''Switzerland'',
          ''United Kingdom'', ''United States''] \<rparr>"

text \<open>
  One row of the data frame that \<open>calculate_growth_rates\<close> receives (columns Country,
  Year, GDP, Capital, Labor) and one row of the frame it returns (lines 172-179).
  Values are real numbers: the arithmetic below is exact, not floating point.
\<close>

record data_row =
  Country :: string
  Year :: int
  GDP :: real
  Capital :: real
  Labor :: real

record result_row =
  Row_Country :: string
  Growth_Rate :: real
  TFP_Growth :: real
  Capital_Deepening :: real
  TFP_Share :: real
  Capital_Share :: real

text \<open>
  Lines 138-139: the rows of one country, sorted by year. The model sorts stably; the
  years of one country are distinct in the generated data.
\<close>

definition country_rows :: "data_row list \<Rightarrow> string \<Rightarrow> data_row list" where
  "country_rows data country = sort_key Year (filter (\<lambda>r. Country r = country) data)"

text \<open>
  Lines 147-149: the annualized growth rate \<open>(last / first) ** (1 / n_years) - 1\<close>.
  The power is the real power \<open>powr\<close>; the quotient is HOL's total division. For a
  zero first value or a negative quotient the source computes in IEEE arithmetic
  (infinity, NaN), which the model does not follow; the theorems below hold for every
  value of the three growth rates.
\<close>

definition growth_rate :: "real \<Rightarrow> real \<Rightarrow> nat \<Rightarrow> real" where
  "growth_rate last_value first_value n_years =
     (last_value / first_value) powr (1 / real n_years) - 1"

text \<open>
  Lines 160-167: the shares of total growth. The two divisions of this block are
  checked: \<open>None\<close> records that a division by zero was attempted.
\<close>

definition checked_div :: "real \<Rightarrow> real \<Rightarrow> real option" where
  "checked_div a b = (if b = 0 then None else Some (a / b))"

definition growth_shares :: "real \<Rightarrow> real \<Rightarrow> real \<Rightarrow> (real \<times> real) option" where
  "growth_shares tfp_growth' capital_contribution' total_growth =
     (if total_growth > 0 then
        (case checked_div tfp_growth' total_growth of
           None \<Rightarrow> None
         | Some tfp_share' \<Rightarrow>
             (case checked_div capital_contribution' total_growth of
                None \<Rightarrow> None
              | Some capital_share' \<Rightarrow> Some (tfp_share', capital_share')))
      else Some (0, 0))"

text \<open>
  Lines 145-170: the local variables of one iteration of the loop, for the sorted rows
  \<open>country_data\<close> of a country with at least two observations.
\<close>

record growth_locals =
  gdp_growth :: real
  capital_growth :: real
  labor_growth :: real
  tfp_growth :: real
  capital_contribution :: real
  labor_contribution :: real
  tfp_share :: real
  capital_share :: real
  capital_deepening :: real

definition country_growth :: "GrowthAccounting \<Rightarrow> data_row list \<Rightarrow> growth_locals option" where
  "country_growth self country_data =
     (let n_years = length country_data - 1;
          gdp_growth' = growth_rate (GDP (last country_data)) (GDP (hd country_data)) n_years;
          capital_growth' =
            growth_rate (Capital (last country_data)) (Capital (hd country_data)) n_years;
          labor_growth' =
            growth_rate (Labor (last country_data)) (Labor (hd country_data)) n_years;
          tfp_growth' = gdp_growth' - alpha self * capital_growth' - beta self * labor_growth';
          capital_contribution' = alpha self * capital_growth';
          labor_contribution' = beta self * labor_growth';
          total_growth = gdp_growth'
      in case growth_shares tfp_growth' capital_contribution' total_growth of
           None \<Rightarrow> None
         | Some (tfp_share', capital_share') \<Rightarrow>
             Some \<lparr> gdp_growth = gdp_growth',
                    capital_growth = capital_growth',
                    labor_growth = labor_growth',
                    tfp_growth = tfp_growth',
                    capital_contribution = capital_contribution',
                    labor_contribution = labor_contribution',
                    tfp_share = tfp_share',
                    capital_share = capital_share',
                    capital_deepening = capital_growth' - labor_growth' \<rparr>)"

definition result_row_of :: "string \<Rightarrow> growth_locals \<Rightarrow> result_row" where
  "result_row_of country L =
     \<lparr> Row_Country = country,
       Growth_Rate = gdp_growth L * 100,
       TFP_Growth = tfp_growth L * 100,
       Capital_Deepening = capital_deepening L * 100,
       TFP_Share = tfp_share L,
       Capital_Share = capital_share L \<rparr>"

text \<open>
  Lines 135-181: the loop over \<open>self.countries\<close>, appending one row per country with
  at least two observations (line 141 skips the others).
\<close>

fun calculate_growth_rates_loop ::
  "GrowthAccounting \<Rightarrow> data_row list \<Rightarrow> string list \<Rightarrow> result_row list \<Rightarrow> result_row list option"
where
  "calculate_growth_rates_loop self data [] results = Some results"
| "calculate_growth_rates_loop self data (country # rest) results =
     (let country_data = country_rows data country in
      if length country_data < 2 then calculate_growth_rates_loop self data rest results
      else
        (case country_growth self country_data of
           None \<Rightarrow> None
         | Some L \<Rightarrow>
             calculate_growth_rates_loop self data rest (results @ [result_row_of country L])))"

definition calculate_growth_rates :: "GrowthAccounting \<Rightarrow> data_row list \<Rightarrow> result_row list option" where
  "calculate_growth_rates self data = calculate_growth_rates_loop self data (countries self) []"

section \<open>The decomposition as the specification describes it\<close>

text \<open>
  Modelled from the spec: the filter itself (\<open>hpfilter\<close>, imported from a library) is
  not among the sources; the scripts only call it. The definitions of this section follow
  the specification's operation \<open>decompose(series, lambda)\<close>: the error kinds of its
  section 7, the result with its two components, the trend as a minimiser of the sum of
  squared deviations from the data plus \<open>lambda\<close> times the sum of squared second
  differences of the trend, the cycle as series minus trend, and the failure for fewer
  than three observations.
\<close>

datatype spec_error =
    InsufficientDataError
  | EmptyIntersectionError
  | MisalignedSeriesError
  | DivisionByZeroError

record FilterResult =
  trend :: "real list"
  cycle :: "real list"

fun second_diffs :: "real list \<Rightarrow> real list" where
  "second_diffs (a # b # c # xs) = (a - 2 * b + c) # second_diffs (b # c # xs)"
| "second_diffs _ = []"

definition smoothness_penalty :: "real list \<Rightarrow> real" where
  "smoothness_penalty tau = sum_list (map (\<lambda>d. d\<^sup>2) (second_diffs tau))"

definition squared_deviation :: "real list \<Rightarrow> real list \<Rightarrow> real" where
  "squared_deviation series tau = sum_list (map2 (\<lambda>x t. (x - t)\<^sup>2) series tau)"

definition hp_objective :: "real \<Rightarrow> real list \<Rightarrow> real list \<Rightarrow> real" where
  "hp_objective lam series tau = squared_deviation series tau + lam * smoothness_penalty tau"

text \<open>
  Modelled from the spec: \<open>tau\<close> is a trend of \<open>series\<close> for \<open>lam\<close> when it has the
  length of the series and no other list of that length has a smaller objective.
\<close>

definition is_hp_trend :: "real \<Rightarrow> real list \<Rightarrow> real list \<Rightarrow> bool" where
  "is_hp_trend lam series tau \<longleftrightarrow>
     length tau = length series
     \<and> (\<forall>u. length u = length series
            \<longrightarrow> hp_objective lam series tau \<le> hp_objective lam series u)"

subsection \<open>Computing the minimiser\<close>

text \<open>
  Modelled from the spec: the routine that computes the trend is part of the missing
  library. The specification gives the trend by the property above and not by an
  algorithm. To have a function that runs, the minimiser is computed by eliminating one
  unknown after the other from the quadratic objective; \<open>hp_trend_minimises\<close> below
  proves that the result is a trend in the sense of \<open>is_hp_trend\<close>.

  A quadratic form in \<open>n\<close> unknowns is a list of \<open>n\<close> rows; the row of the unknown
  \<open>x\<close> holds the coefficient \<open>a\<close> of \<open>x\<^sup>2\<close> and the list \<open>v\<close> of half the coefficients
  of the products of \<open>x\<close> with the unknowns after it.
\<close>

fun dot :: "real list \<Rightarrow> real list \<Rightarrow> real" where
  "dot (x # xs) (y # ys) = x * y + dot xs ys"
| "dot _ _ = 0"

text \<open>\<open>axpy m cs ws\<close> is \<open>ws + m * cs\<close>, with \<open>cs\<close> continued by zeros.\<close>

fun axpy :: "real \<Rightarrow> real list \<Rightarrow> real list \<Rightarrow> real list" where
  "axpy m (c # cs) (w # ws) = (w + m * c) # axpy m cs ws"
| "axpy m [] ws = ws"
| "axpy m cs [] = []"

type_synonym quad_row = "real \<times> real list"

fun quad :: "quad_row list \<Rightarrow> real list \<Rightarrow> real" where
  "quad ((a, v) # rows) (x # xs) = a * x\<^sup>2 + 2 * x * dot v xs + quad rows xs"
| "quad _ _ = 0"

text \<open>\<open>add_sq k cs rows\<close> is the form \<open>rows\<close> plus \<open>k\<close> times the square of \<open>dot cs\<close>.\<close>

fun add_sq :: "real \<Rightarrow> real list \<Rightarrow> quad_row list \<Rightarrow> quad_row list" where
  "add_sq k (c # cs) ((a, v) # rows) = (a + k * c\<^sup>2, axpy (k * c) cs v) # add_sq k cs rows"
| "add_sq k [] rows = rows"
| "add_sq k cs [] = []"

fun wf_rows :: "quad_row list \<Rightarrow> bool" where
  "wf_rows [] = True"
| "wf_rows ((a, v) # rows) = (length v = length rows \<and> wf_rows rows)"

definition dominates :: "quad_row list \<Rightarrow> bool" where
  "dominates rows \<longleftrightarrow> (\<forall>x. length x = length rows \<longrightarrow> dot x x \<le> quad rows x)"

text \<open>
  \<open>solve rows bs\<close> minimises \<open>quad rows x - 2 * dot bs x\<close>: the first unknown is
  expressed by the others, which minimise the form that remains.
\<close>

function solve :: "quad_row list \<Rightarrow> real list \<Rightarrow> real list" where
  "solve ((a, v) # rows) (b # bs) =
     (let y = solve (add_sq (- 1 / a) v rows) (axpy (- b / a) v bs)
      in ((b - dot v y) / a) # y)"
| "solve [] bs = []"
| "solve (r # rows) [] = []"
  by pat_completeness auto
termination
proof (relation "measure (\<lambda>(rows, bs). length rows)")
  show "wf (measure (\<lambda>(rows :: quad_row list, bs :: real list). length rows))"
    by simp
next
  fix a :: real and v rows b and bs :: "real list"
  have "length (add_sq k cs rs) = length rs" for k cs rs
    by (induction k cs rs rule: add_sq.induct) simp_all
  then show "((add_sq (- 1 / a) v rows, axpy (- b / a) v bs), (a, v) # rows, b # bs)
      \<in> measure (\<lambda>(rows, bs). length rows)"
    by simp
qed

text \<open>
  The quadratic part of the objective for a series of the given length (only the length
  of the second argument matters): the sum of the squares of the unknowns plus \<open>lam\<close>
  times the sum of their squared second differences.
\<close>

fun hp_quad :: "real \<Rightarrow> real list \<Rightarrow> quad_row list" where
  "hp_quad lam (x # y # z # xs) =
     (1 + lam, [- 2 * lam, lam] @ map (\<lambda>_. 0) xs)
       # add_sq lam [2, - 1] (hp_quad lam (y # z # xs))"
| "hp_quad lam (x # xs) = (1, map (\<lambda>_. 0) xs) # hp_quad lam xs"
| "hp_quad lam [] = []"

definition hp_trend :: "real \<Rightarrow> real list \<Rightarrow> real list" where
  "hp_trend lam series = solve (hp_quad lam series) series"

subsection \<open>The operation\<close>

text \<open>
  Modelled from the spec: \<open>decompose\<close> fails with InsufficientDataError for fewer than
  three observations and otherwise returns the trend and the cycle, the series minus
  the trend.
\<close>

definition decompose :: "real list \<Rightarrow> real \<Rightarrow> spec_error + FilterResult" where
  "decompose series lam =
     (if length series < 3 then Inl InsufficientDataError
      else
        let tau = hp_trend lam series
        in Inr \<lparr> trend = tau, cycle = map2 (-) series tau \<rparr>)"



text \<open>
  Modelled from the spec: the smoothness measure of its monotonicity property, the mean
  squared second difference of a list and its ratio to that of the original series.
\<close>

definition mean_sq_second_diff :: "real list \<Rightarrow> real" where
  "mean_sq_second_diff xs = smoothness_penalty xs / real (length (second_diffs xs))"

definition smoothness_ratio :: "real list \<Rightarrow> real list \<Rightarrow> real" where
  "smoothness_ratio series tau = mean_sq_second_diff tau / mean_sq_second_diff series"


section \<open>Properties of the alignment\<close>

text \<open>
  C5 (as stated, refuted): for two series whose timestamp ranges do not overlap the
  alignment is said to raise EmptyIntersectionError. The two label slices of lines 28-29
  return instead: both aligned series are empty.
\<close>

theorem align_disjoint_counterexample:
  "common_end [(1, 10), (2, 20)] [(5, 7), (6, 8)]
     < common_start [(1, 10), (2, 20)] [(5, 7), (6, 8)]
   \<and> align_common_range [(1, 10), (2, 20)] [(5, 7), (6, 8)] = Inr ([], [])"
  by (simp add: align_common_range_def common_start_def common_end_def index_min_def
      index_max_def label_slice_def)

text \<open>
  C5 (amended): for two non-empty series the alignment returns, without raising, both
  series restricted to the common range from the later of the two first timestamps to
  the earlier of the two last timestamps, both ends included; when the ranges do not
  overlap both restricted series are empty.
\<close>

theorem align_common_range_restricts:
  assumes "spain_gdp \<noteq> []" and "japan_gdp \<noteq> []"
  shows "\<exists>spain_gdp_aligned japan_gdp_aligned.
      align_common_range spain_gdp japan_gdp = Inr (spain_gdp_aligned, japan_gdp_aligned)
      \<and> common_start spain_gdp japan_gdp
          = max (Min (fst ` set spain_gdp)) (Min (fst ` set japan_gdp))
      \<and> common_end spain_gdp japan_gdp
          = min (Max (fst ` set spain_gdp)) (Max (fst ` set japan_gdp))
      \<and> spain_gdp_aligned
          = filter (\<lambda>p. common_start spain_gdp japan_gdp \<le> fst p
                        \<and> fst p \<le> common_end spain_gdp japan_gdp) spain_gdp
      \<and> japan_gdp_aligned
          = filter (\<lambda>p. common_start spain_gdp japan_gdp \<le> fst p
                        \<and> fst p \<le> common_end spain_gdp japan_gdp) japan_gdp
      \<and> (common_end spain_gdp japan_gdp < common_start spain_gdp japan_gdp
           \<longrightarrow> spain_gdp_aligned = [] \<and> japan_gdp_aligned = [])"
proof -
  let ?cs = "common_start spain_gdp japan_gdp" and ?ce = "common_end spain_gdp japan_gdp"
  have empty: "filter (\<lambda>p. ?cs \<le> fst p \<and> fst p \<le> ?ce) s = []" if "?ce < ?cs" for s :: series
    using that by (auto simp add: filter_empty_conv)
  have "align_common_range spain_gdp japan_gdp =
      Inr (filter (\<lambda>p. ?cs \<le> fst p \<and> fst p \<le> ?ce) spain_gdp,
           filter (\<lambda>p. ?cs \<le> fst p \<and> fst p \<le> ?ce) japan_gdp)"
    using assms by (simp add: align_common_range_def label_slice_def Let_def)
  moreover have "?cs = max (Min (fst ` set spain_gdp)) (Min (fst ` set japan_gdp))"
    and "?ce = min (Max (fst ` set spain_gdp)) (Max (fst ` set japan_gdp))"
    by (simp_all add: common_start_def common_end_def index_min_def index_max_def)
  ultimately show ?thesis
    using empty by blast
qed

theorem align_common_range_restricts_witness:
  "align_common_range [(1, 10), (2, 20), (3, 30)] [(2, 7), (3, 8), (4, 9)]
     = Inr ([(2, 20), (3, 30)], [(2, 7), (3, 8)])
   \<and> common_start [(1, 10), (2, 20), (3, 30)] [(2, 7), (3, 8), (4, 9)] = 2
   \<and> common_end [(1, 10), (2, 20), (3, 30)] [(2, 7), (3, 8), (4, 9)] = 3
   \<and> common_end [(1, 10), (2, 20)] [(5, 7), (6, 8)]
       < common_start [(1, 10), (2, 20)] [(5, 7), (6, 8)]
   \<and> align_common_range [(1, 10), (2, 20)] [(5, 7), (6, 8)] = Inr ([], [])"
proof -
  have cs: "common_start [(1, 10), (2, 20), (3, 30)] [(2, 7), (3, 8), (4, 9)] = 2"
    and ce: "common_end [(1, 10), (2, 20), (3, 30)] [(2, 7), (3, 8), (4, 9)] = 3"
    and lt: "common_end [(1, 10), (2, 20)] [(5, 7), (6, 8)]
       < common_start [(1, 10), (2, 20)] [(5, 7), (6, 8)]"
    by (simp_all add: common_start_def common_end_def index_min_def index_max_def)
  have overlap: "align_common_range [(1, 10), (2, 20), (3, 30)] [(2, 7), (3, 8), (4, 9)]
     = Inr ([(2, 20), (3, 30)], [(2, 7), (3, 8)])"
    using align_common_range_restricts [of "[(1, 10), (2, 20), (3, 30)]" "[(2, 7), (3, 8), (4, 9)]"]
    by (auto simp add: cs ce)
  have disjoint: "align_common_range [(1, 10), (2, 20)] [(5, 7), (6, 8)] = Inr ([], [])"
    using align_common_range_restricts [of "[(1, 10), (2, 20)]" "[(5, 7), (6, 8)]"] lt
    by auto
  from overlap cs ce lt disjoint show ?thesis by blast
qed

section \<open>Properties of the standard-deviation ratio\<close>

lemma sample_variance_nonneg: "0 \<le> sample_variance xs"
  unfolding sample_variance_def
  by (intro divide_nonneg_nonneg sum_list_nonneg) auto

text \<open>
  C6 (as stated, refuted): the ratio is said to fail with a division-by-zero error when
  the denominator series has zero variance. For the cycle that is identically 0 as
  denominator, line 55 returns positive infinity.
\<close>

theorem std_ratio_counterexample:
  "sample_variance [0, 0, 0] = 0 \<and> std_ratio [1, -1, 0] [0, 0, 0] = PosInf"
  by (simp add: std_ratio_def series_std_def sample_variance_def mean_def)

text \<open>
  C6 (amended): for two cycle series of at least two observations the ratio of line 55
  never fails. For a denominator with nonzero variance it is the quotient of the two
  standard deviations; for a denominator with zero variance it is positive infinity,
  or NaN when the numerator has zero variance too.
\<close>

theorem std_ratio_total:
  assumes "2 \<le> length a" and "2 \<le> length b"
  shows "std_ratio a b =
     (if sample_variance b \<noteq> 0
      then Finite (sqrt (sample_variance a) / sqrt (sample_variance b))
      else if sample_variance a = 0 then NaN else PosInf)"
  using assms sample_variance_nonneg [of a]
  by (auto simp add: std_ratio_def series_std_def Let_def)

theorem std_ratio_total_witness:
  "std_ratio [2, -2, 0] [1, -1, 0] = Finite 2
   \<and> std_ratio [1, -1, 0] [3, 3, 3] = PosInf
   \<and> std_ratio [0, 0, 0] [3, 3, 3] = NaN"
proof -
  have v: "sample_variance [2, -2, 0] = 4" "sample_variance [1, -1, 0] = 1"
    "sample_variance [3, 3, 3] = 0" "sample_variance [0, 0, 0] = 0"
    by (simp_all add: sample_variance_def mean_def)
  show ?thesis
    using std_ratio_total [of "[2, -2, 0]" "[1, -1, 0]"]
      std_ratio_total [of "[1, -1, 0]" "[3, 3, 3]"]
      std_ratio_total [of "[0, 0, 0]" "[3, 3, 3]"]
    by (simp add: v)
qed

section \<open>Properties of the correlation label\<close>

text \<open>
  C2 (as stated, refuted): the table is said to have inclusive lower bounds, so a
  correlation of exactly 0.7 would be "very strong positive". The chain compares with
  a strict greater-than, so 0.7 falls through to the second branch.
\<close>

theorem correlation_strength_boundary_counterexample:
  "(0.7::real) \<ge> 0.7 \<and> correlation_strength 0.7 = StrongPositive
     \<and> correlation_strength 0.7 \<noteq> VeryStrongPositive"
  by (simp add: correlation_strength_def)

text \<open>
  C2 (amended): the label is a total function of the correlation given by the same
  thresholds with an exclusive lower and an inclusive upper bound, evaluated top-down;
  0.65 is "strong positive" and -0.5 is "moderate-or-stronger negative".
\<close>

theorem correlation_strength_table:
  "(correlation_strength c = VeryStrongPositive \<longleftrightarrow> 0.7 < c)
   \<and> (correlation_strength c = StrongPositive \<longleftrightarrow> 0.5 < c \<and> c \<le> 0.7)
   \<and> (correlation_strength c = ModeratePositive \<longleftrightarrow> 0.3 < c \<and> c \<le> 0.5)
   \<and> (correlation_strength c = WeakPositive \<longleftrightarrow> 0.1 < c \<and> c \<le> 0.3)
   \<and> (correlation_strength c = Negligible \<longleftrightarrow> -0.1 < c \<and> c \<le> 0.1)
   \<and> (correlation_strength c = WeakNegative \<longleftrightarrow> -0.3 < c \<and> c \<le> -0.1)
   \<and> (correlation_strength c = ModerateOrStrongerNegative \<longleftrightarrow> c \<le> -0.3)
   \<and> correlation_strength 0.65 = StrongPositive
   \<and> correlation_strength (-0.5) = ModerateOrStrongerNegative"
  by (simp add: correlation_strength_def)

section \<open>Properties of the two calls of the filter\<close>

lemma project1_step_trends:
  "trends (project1_step hp x lam vars) k =
     (if k = lam then Some (snd (hp x (real_of_int lam))) else trends vars k)"
  by (simp add: project1_step_def split_beta)

lemma project1_step_cycles:
  "cycles (project1_step hp x lam vars) k =
     (if k = lam then Some (fst (hp x (real_of_int lam))) else cycles vars k)"
  by (simp add: project1_step_def split_beta)

lemma project1_loop_lookup:
  "trends (project1_loop hp x lams vars) k =
     (if k \<in> set lams then Some (snd (hp x (real_of_int k))) else trends vars k)
   \<and> cycles (project1_loop hp x lams vars) k =
     (if k \<in> set lams then Some (fst (hp x (real_of_int k))) else cycles vars k)"
  unfolding project1_loop_def
  by (induction lams arbitrary: vars) (simp_all add: project1_step_trends project1_step_cycles)

text \<open>
  C3: the two scripts bind the pair returned by the filter in opposite orders.
  midterm1-4,5.py binds the first component to its trend-named variable and the second
  to its cycle-named one; project1.py stores, for every value of its list, the first
  component under its cycle-named dictionary and the second under its trend-named one.
  So for the same input series and the smoothing parameter 1600 (the one value both
  scripts use) the trend of the one script is the cycle of the other, for the Spanish
  and for the Japanese series.
\<close>

theorem hpfilter_bindings_swapped:
  "spain_trend (midterm_hpfilter hp x y) = fst (hp x 1600)
   \<and> spain_cycle (midterm_hpfilter hp x y) = snd (hp x 1600)
   \<and> japan_trend (midterm_hpfilter hp x y) = fst (hp y 1600)
   \<and> japan_cycle (midterm_hpfilter hp x y) = snd (hp y 1600)
   \<and> list_all
        (\<lambda>lam. cycles (project1_hpfilter hp x) lam = Some (fst (hp x (real_of_int lam)))
               \<and> trends (project1_hpfilter hp x) lam = Some (snd (hp x (real_of_int lam))))
        lambdas
   \<and> cycles (project1_hpfilter hp x) 1600 = Some (spain_trend (midterm_hpfilter hp x y))
   \<and> trends (project1_hpfilter hp x) 1600 = Some (spain_cycle (midterm_hpfilter hp x y))
   \<and> cycles (project1_hpfilter hp y) 1600 = Some (japan_trend (midterm_hpfilter hp x y))
   \<and> trends (project1_hpfilter hp y) 1600 = Some (japan_cycle (midterm_hpfilter hp x y))"
  by (simp add: project1_hpfilter_def project1_loop_lookup lambdas_def midterm_hpfilter_def
      split_beta)

section \<open>Properties of the growth accounting\<close>

lemma growth_shares_total:
  "\<exists>ts cs. growth_shares t c g = Some (ts, cs)
     \<and> (if 0 < g then ts = t / g \<and> cs = c / g else ts = 0 \<and> cs = 0)"
  by (simp add: growth_shares_def checked_div_def)

lemma calculate_growth_rates_loop_rows:
  assumes step: "\<And>cd. \<exists>L. country_growth self cd = Some L \<and> Q cd L"
  shows "\<exists>rows. calculate_growth_rates_loop self data cs acc = Some (acc @ rows)
           \<and> list_all2
                (\<lambda>country r. \<exists>L. country_growth self (country_rows data country) = Some L
                                \<and> r = result_row_of country L
                                \<and> Q (country_rows data country) L)
                (filter (\<lambda>country. 2 \<le> length (country_rows data country)) cs) rows"
proof (induction cs arbitrary: acc)
  case Nil
  show ?case by simp
next
  case (Cons country rest)
  show ?case
  proof (cases "length (country_rows data country) < 2")
    case True
    with Cons.IH [of acc] show ?thesis by (simp add: Let_def)
  next
    case False
    from step obtain L where L: "country_growth self (country_rows data country) = Some L"
      "Q (country_rows data country) L"
      by blast
    from Cons.IH [of "acc @ [result_row_of country L]"] obtain rows where
      rows: "calculate_growth_rates_loop self data rest (acc @ [result_row_of country L])
               = Some ((acc @ [result_row_of country L]) @ rows)"
        "list_all2
           (\<lambda>country r. \<exists>L. country_growth self (country_rows data country) = Some L
                           \<and> r = result_row_of country L
                                \<and> Q (country_rows data country) L)
           (filter (\<lambda>country. 2 \<le> length (country_rows data country)) rest) rows"
      by blast
    have "calculate_growth_rates_loop self data (country # rest) acc
            = Some (acc @ (result_row_of country L # rows))"
      using False L(1) rows(1) by (simp add: Let_def)
    moreover have "list_all2
           (\<lambda>country r. \<exists>L. country_growth self (country_rows data country) = Some L
                           \<and> r = result_row_of country L
                                \<and> Q (country_rows data country) L)
           (filter (\<lambda>country. 2 \<le> length (country_rows data country)) (country # rest))
           (result_row_of country L # rows)"
      using False L rows(2) by simp
    ultimately show ?thesis by blast
  qed
qed

lemma country_growth_total:
  "\<exists>L. country_growth self cd = Some L
     \<and> gdp_growth L = growth_rate (GDP (last cd)) (GDP (hd cd)) (length cd - 1)
     \<and> capital_growth L = growth_rate (Capital (last cd)) (Capital (hd cd)) (length cd - 1)
     \<and> labor_growth L = growth_rate (Labor (last cd)) (Labor (hd cd)) (length cd - 1)
     \<and> tfp_growth L = gdp_growth L - alpha self * capital_growth L - beta self * labor_growth L
     \<and> capital_contribution L = alpha self * capital_growth L
     \<and> (if 0 < gdp_growth L
         then tfp_share L = tfp_growth L / gdp_growth L
            \<and> capital_share L = capital_contribution L / gdp_growth L
         else tfp_share L = 0 \<and> capital_share L = 0)"
proof -
  let ?n = "length cd - 1"
  let ?g = "growth_rate (GDP (last cd)) (GDP (hd cd)) ?n"
  let ?k = "growth_rate (Capital (last cd)) (Capital (hd cd)) ?n"
  let ?l = "growth_rate (Labor (last cd)) (Labor (hd cd)) ?n"
  from growth_shares_total [of "?g - alpha self * ?k - beta self * ?l" "alpha self * ?k" ?g]
  obtain ts cs where
    sh: "growth_shares (?g - alpha self * ?k - beta self * ?l) (alpha self * ?k) ?g = Some (ts, cs)"
    and v: "if 0 < ?g then ts = (?g - alpha self * ?k - beta self * ?l) / ?g \<and> cs = (alpha self * ?k) / ?g
            else ts = 0 \<and> cs = 0"
    by blast
  show ?thesis
    using sh v by (simp add: country_growth_def Let_def)
qed


lemma list_all2_member_right:
  "list_all2 P xs ys \<Longrightarrow> y \<in> set ys \<Longrightarrow> \<exists>x. P x y"
  by (induction rule: list_all2_induct) auto

text \<open>
  C9: in \<open>calculate_growth_rates\<close>, for an instance built by the constructor, every row
  of the result comes from local variables that satisfy the growth-accounting identity
  \<open>gdp_growth = tfp_growth + alpha * capital_growth + (1 - alpha) * labor_growth\<close>
  exactly.
\<close>

theorem growth_accounting_identity:
  "\<exists>rows. calculate_growth_rates (GrowthAccounting_init sy ey a) data = Some rows
     \<and> list_all2
          (\<lambda>country r. \<exists>L.
              country_growth (GrowthAccounting_init sy ey a) (country_rows data country) = Some L
              \<and> r = result_row_of country L
              \<and> gdp_growth L = tfp_growth L + a * capital_growth L + (1 - a) * labor_growth L)
          (filter (\<lambda>country. 2 \<le> length (country_rows data country))
             (countries (GrowthAccounting_init sy ey a)))
          rows"
proof -
  let ?self = "GrowthAccounting_init sy ey a"
  have ab: "alpha ?self = a" "beta ?self = 1 - a"
    by (simp_all add: GrowthAccounting_init_def)
  have step: "\<exists>L. country_growth ?self cd = Some L
      \<and> gdp_growth L = tfp_growth L + a * capital_growth L + (1 - a) * labor_growth L" for cd
  proof -
    from country_growth_total [of ?self cd] obtain L where
      "country_growth ?self cd = Some L"
      "tfp_growth L = gdp_growth L - alpha ?self * capital_growth L - beta ?self * labor_growth L"
      by blast
    then show ?thesis by (auto simp: ab)
  qed
  show ?thesis
    unfolding calculate_growth_rates_def
    using calculate_growth_rates_loop_rows
      [of ?self "\<lambda>cd L. gdp_growth L = tfp_growth L + a * capital_growth L + (1 - a) * labor_growth L"
          data "countries ?self" "[]", OF step]
    by simp
qed

text \<open>
  C10: in \<open>calculate_growth_rates\<close> the two share divisions are taken only when the
  annualized GDP growth is strictly positive, so no division by zero is attempted (the
  result is never \<open>None\<close>); for a country whose growth is zero or negative both shares
  are 0.
\<close>

theorem growth_shares_guarded:
  "\<exists>rows. calculate_growth_rates self data = Some rows
     \<and> list_all2
          (\<lambda>country r. \<exists>L.
              country_growth self (country_rows data country) = Some L
              \<and> r = result_row_of country L
              \<and> (if 0 < gdp_growth L
                  then tfp_share L = tfp_growth L / gdp_growth L
                     \<and> capital_share L = capital_contribution L / gdp_growth L
                  else tfp_share L = 0 \<and> capital_share L = 0))
          (filter (\<lambda>country. 2 \<le> length (country_rows data country)) (countries self))
          rows
     \<and> (\<forall>r \<in> set rows. Growth_Rate r \<le> 0 \<longrightarrow> TFP_Share r = 0 \<and> Capital_Share r = 0)"
proof -
  let ?Q = "\<lambda>L. if 0 < gdp_growth L
                  then tfp_share L = tfp_growth L / gdp_growth L
                     \<and> capital_share L = capital_contribution L / gdp_growth L
                  else tfp_share L = 0 \<and> capital_share L = 0"
  let ?P = "\<lambda>country r. \<exists>L.
              country_growth self (country_rows data country) = Some L
              \<and> r = result_row_of country L \<and> ?Q L"
  let ?cs = "filter (\<lambda>country. 2 \<le> length (country_rows data country)) (countries self)"
  have step: "\<exists>L. country_growth self cd = Some L \<and> ?Q L" for cd
    using country_growth_total [of self cd] by blast
  from calculate_growth_rates_loop_rows [of self "\<lambda>cd. ?Q" data "countries self" "[]", OF step]
  obtain rows where rows: "calculate_growth_rates self data = Some rows" "list_all2 ?P ?cs rows"
    unfolding calculate_growth_rates_def by auto
  have "TFP_Share r = 0 \<and> Capital_Share r = 0" if r: "r \<in> set rows" "Growth_Rate r \<le> 0" for r
  proof -
    from list_all2_member_right [OF rows(2) r(1)] obtain country where "?P country r" ..
    then obtain L where L: "r = result_row_of country L" "?Q L" by blast
    from r(2) L(1) have "\<not> 0 < gdp_growth L" by (simp add: result_row_of_def)
    with L show ?thesis by (simp add: result_row_of_def)
  qed
  with rows show ?thesis by blast
qed

theorem growth_shares_guarded_witness:
  "calculate_growth_rates (GrowthAccounting_init 1990 2019 0.33)
     [\<lparr>Country = ''Japan'', Year = 1990, GDP = 100, Capital = 300, Labor = 100\<rparr>,
      \<lparr>Country = ''Spain'', Year = 1991, GDP = 110, Capital = 330, Labor = 100\<rparr>,
      \<lparr>Country = ''Italy'', Year = 1990, GDP = 100, Capital = 300, Labor = 100\<rparr>,
      \<lparr>Country = ''Japan'', Year = 1991, GDP = 90, Capital = 330, Labor = 110\<rparr>,
      \<lparr>Country = ''Spain'', Year = 1990, GDP = 100, Capital = 300, Labor = 100\<rparr>]
   = Some
     [\<lparr>Row_Country = ''Japan'', Growth_Rate = - 10, TFP_Growth = - 20,
        Capital_Deepening = 0, TFP_Share = 0, Capital_Share = 0\<rparr>,
      \<lparr>Row_Country = ''Spain'', Growth_Rate = 10, TFP_Growth = 67 / 10,
        Capital_Deepening = 10, TFP_Share = 67 / 100, Capital_Share = 33 / 100\<rparr>]
   \<and> Growth_Rate \<lparr>Row_Country = ''Japan'', Growth_Rate = - 10, TFP_Growth = - 20,
        Capital_Deepening = 0, TFP_Share = 0, Capital_Share = 0\<rparr> \<le> 0"
proof -
  let ?self = "GrowthAccounting_init 1990 2019 0.33"
  let ?data = "[\<lparr>Country = ''Japan'', Year = 1990, GDP = 100, Capital = 300, Labor = 100\<rparr>,
      \<lparr>Country = ''Spain'', Year = 1991, GDP = 110, Capital = 330, Labor = 100\<rparr>,
      \<lparr>Country = ''Italy'', Year = 1990, GDP = 100, Capital = 300, Labor = 100\<rparr>,
      \<lparr>Country = ''Japan'', Year = 1991, GDP = 90, Capital = 330, Labor = 110\<rparr>,
      \<lparr>Country = ''Spain'', Year = 1990, GDP = 100, Capital = 300, Labor = 100\<rparr>]"
  from growth_shares_guarded [of ?self ?data] obtain rows where
    rows: "calculate_growth_rates ?self ?data = Some rows"
      "\<forall>r \<in> set rows. Growth_Rate r \<le> 0 \<longrightarrow> TFP_Share r = 0 \<and> Capital_Share r = 0"
    by blast
  have hd_rows: "Row_Country (hd rows) = ''Japan'' \<and> Growth_Rate (hd rows) = - 10
      \<and> TFP_Growth (hd rows) = - 20 \<and> Capital_Deepening (hd rows) = 0"
    and tl_rows: "tl rows = [\<lparr>Row_Country = ''Spain'', Growth_Rate = 10, TFP_Growth = 67 / 10,
        Capital_Deepening = 10, TFP_Share = 67 / 100, Capital_Share = 33 / 100\<rparr>]"
    and ne: "rows \<noteq> []"
    using rows(1)
    by (auto simp add: calculate_growth_rates_def GrowthAccounting_init_def country_rows_def
        country_growth_def growth_rate_def growth_shares_def checked_div_def
        result_row_of_def Let_def)
  from ne have "hd rows \<in> set rows" by simp
  with rows(2) hd_rows have "TFP_Share (hd rows) = 0 \<and> Capital_Share (hd rows) = 0" by simp
  with hd_rows have "hd rows = \<lparr>Row_Country = ''Japan'', Growth_Rate = - 10, TFP_Growth = - 20,
        Capital_Deepening = 0, TFP_Share = 0, Capital_Share = 0\<rparr>"
    by simp
  with tl_rows ne have "rows = [\<lparr>Row_Country = ''Japan'', Growth_Rate = - 10, TFP_Growth = - 20,
        Capital_Deepening = 0, TFP_Share = 0, Capital_Share = 0\<rparr>,
      \<lparr>Row_Country = ''Spain'', Growth_Rate = 10, TFP_Growth = 67 / 10,
        Capital_Deepening = 10, TFP_Share = 67 / 100, Capital_Share = 33 / 100\<rparr>]"
    by (cases rows) simp_all
  with rows(1) show ?thesis by simp
qed

section \<open>Properties of the decomposition\<close>

subsection \<open>The computed trend is the minimiser\<close>

lemma length_axpy [simp]: "length (axpy m cs ws) = length ws"
  by (induction m cs ws rule: axpy.induct) simp_all

lemma length_add_sq [simp]: "length (add_sq k cs rows) = length rows"
  by (induction k cs rows rule: add_sq.induct) simp_all

lemma wf_rows_add_sq: "wf_rows rows \<Longrightarrow> wf_rows (add_sq k cs rows)"
  by (induction k cs rows rule: add_sq.induct) simp_all

lemma dot_axpy:
  "length ws = length ys \<Longrightarrow> dot (axpy m cs ws) ys = dot ws ys + m * dot cs ys"
proof (induction m cs ws arbitrary: ys rule: axpy.induct)
  case (1 m c cs w ws)
  then show ?case by (cases ys) (simp_all add: algebra_simps)
next
  case (2 m ws)
  then show ?case by simp
next
  case (3 m cs)
  then show ?case by simp
qed

lemma quad_add_sq:
  "wf_rows rows \<Longrightarrow> length y = length rows
     \<Longrightarrow> quad (add_sq k cs rows) y = quad rows y + k * (dot cs y)\<^sup>2"
proof (induction k cs rows arbitrary: y rule: add_sq.induct)
  case (1 k c cs a v rows)
  then obtain x xs where y: "y = x # xs" by (cases y) auto
  with 1 have len: "length v = length xs" "length xs = length rows" "wf_rows rows"
    by simp_all
  show ?case
    using "1.IH" [OF len(3) len(2)] dot_axpy [OF len(1), of "k * c" cs]
    by (simp add: y power2_eq_square algebra_simps)
next
  case (2 k rows)
  then show ?case by simp
next
  case (3 k cs)
  then show ?case by simp
qed

lemma length_solve: "length bs = length rows \<Longrightarrow> length (solve rows bs) = length rows"
  by (induction rows bs rule: solve.induct) (simp_all add: Let_def)

lemma dot_zeros [simp]: "dot v (replicate n 0) = 0"
proof (induction v arbitrary: n)
  case Nil
  show ?case by simp
next
  case (Cons a v)
  then show ?case by (cases n) simp_all
qed

lemma quad_zeros [simp]: "quad rows (replicate n 0) = 0"
proof (induction rows arbitrary: n)
  case Nil
  show ?case by simp
next
  case (Cons r rows)
  then show ?case by (cases n; cases r) simp_all
qed

lemma eliminate:
  assumes "a \<noteq> 0" and "length v = length y" and "length bs = length y"
    and "wf_rows rows" and "length rows = length y"
  shows "quad ((a, v) # rows) (x # y) - 2 * dot (b # bs) (x # y)
     = a * (x - (b - dot v y) / a)\<^sup>2
       + (quad (add_sq (- 1 / a) v rows) y - 2 * dot (axpy (- b / a) v bs) y)
       - b\<^sup>2 / a"
proof -
  have q: "quad (add_sq (- 1 / a) v rows) y = quad rows y + (- 1 / a) * (dot v y)\<^sup>2"
    using assms by (intro quad_add_sq) simp_all
  have d: "dot (axpy (- b / a) v bs) y = dot bs y + (- b / a) * dot v y"
    using assms by (intro dot_axpy) simp
  show ?thesis
    unfolding q d using assms(1)
    by (simp add: power2_eq_square field_simps)
qed

lemma dominates_reduce:
  assumes wf: "wf_rows ((a, v) # rows)" and dom: "dominates ((a, v) # rows)"
  shows "1 \<le> a" and "dominates (add_sq (- 1 / a) v rows)"
proof -
  from wf have len: "length v = length rows" and wfr: "wf_rows rows" by simp_all
  from dom [unfolded dominates_def, rule_format, of "1 # replicate (length rows) 0"]
  show a: "1 \<le> a" by simp
  show "dominates (add_sq (- 1 / a) v rows)"
    unfolding dominates_def
  proof (intro allI impI)
    fix y :: "real list"
    assume "length y = length (add_sq (- 1 / a) v rows)"
    then have ly: "length y = length rows" by simp
    define x0 where "x0 = - dot v y / a"
    have "quad (add_sq (- 1 / a) v rows) y = quad rows y + (- 1 / a) * (dot v y)\<^sup>2"
      using wfr ly by (rule quad_add_sq)
    then have q: "quad (add_sq (- 1 / a) v rows) y = quad rows y - (dot v y)\<^sup>2 / a"
      by simp
    have A: "quad ((a, v) # rows) (x0 # y) = quad rows y - (dot v y)\<^sup>2 / a"
      using a by (simp add: x0_def power2_eq_square field_simps)
    have B: "x0 * x0 + dot y y \<le> quad ((a, v) # rows) (x0 # y)"
      using dom [unfolded dominates_def, rule_format, of "x0 # y"] ly by simp
    have C: "0 \<le> x0 * x0" by simp
    from q A B C show "dot y y \<le> quad (add_sq (- 1 / a) v rows) y"
      by linarith
  qed
qed

lemma solve_minimises:
  "wf_rows rows \<Longrightarrow> dominates rows \<Longrightarrow> length bs = length rows \<Longrightarrow> length x = length rows
     \<Longrightarrow> quad rows (solve rows bs) - 2 * dot bs (solve rows bs) \<le> quad rows x - 2 * dot bs x"
proof (induction rows bs arbitrary: x rule: solve.induct)
  case (1 a v rows b bs)
  let ?rows' = "add_sq (- 1 / a) v rows" and ?bs' = "axpy (- b / a) v bs"
  let ?y = "solve ?rows' ?bs'"
  from "1.prems" obtain x1 xs where x: "x = x1 # xs" by (cases x) auto
  from "1.prems" have len: "length v = length rows" "length bs = length rows"
      "length xs = length rows" and wfr: "wf_rows rows"
    by (simp_all add: x)
  from dominates_reduce [OF "1.prems"(1) "1.prems"(2)]
  have a: "1 \<le> a" and dom': "dominates ?rows'" by simp_all
  have wf': "wf_rows ?rows'" using wfr by (rule wf_rows_add_sq)
  have ly: "length ?y = length rows" by (simp add: length_solve len)
  have IH: "quad ?rows' ?y - 2 * dot ?bs' ?y \<le> quad ?rows' xs - 2 * dot ?bs' xs"
    by (rule "1.IH" [OF wf' dom']) (simp_all add: len)
  have e1: "quad ((a, v) # rows) (x1 # xs) - 2 * dot (b # bs) (x1 # xs)
     = a * (x1 - (b - dot v xs) / a)\<^sup>2 + (quad ?rows' xs - 2 * dot ?bs' xs) - b\<^sup>2 / a"
    using a by (intro eliminate) (simp_all add: len wfr)
  have e2: "quad ((a, v) # rows) (((b - dot v ?y) / a) # ?y)
       - 2 * dot (b # bs) (((b - dot v ?y) / a) # ?y)
     = a * ((b - dot v ?y) / a - (b - dot v ?y) / a)\<^sup>2
       + (quad ?rows' ?y - 2 * dot ?bs' ?y) - b\<^sup>2 / a"
    using a ly by (intro eliminate) (simp_all add: len wfr)
  have sq: "0 \<le> a * (x1 - (b - dot v xs) / a)\<^sup>2" using a by simp
  have s: "solve ((a, v) # rows) (b # bs) = ((b - dot v ?y) / a) # ?y"
    by (simp add: Let_def)
  show ?case
    unfolding s x e1 e2 using IH sq by simp
next
  case (2 bs)
  then show ?case by simp
next
  case (3 r rows)
  then show ?case by simp
qed

lemma length_hp_quad [simp]: "length (hp_quad lam s) = length s"
  by (induction lam s rule: hp_quad.induct) simp_all

lemma wf_hp_quad: "wf_rows (hp_quad lam s)"
  by (induction lam s rule: hp_quad.induct) (simp_all add: wf_rows_add_sq)

lemma dot_zero_left [simp]: "dot (map (\<lambda>_. 0) xs) us = 0"
proof (induction xs arbitrary: us)
  case Nil
  show ?case by simp
next
  case (Cons x xs)
  then show ?case by (cases us) simp_all
qed

lemma quad_hp_quad:
  "length u = length s \<Longrightarrow> quad (hp_quad lam s) u = dot u u + lam * smoothness_penalty u"
proof (induction lam s arbitrary: u rule: hp_quad.induct)
  case (1 lam x y z xs)
  then obtain u1 u2 u3 us where u: "u = u1 # u2 # u3 # us" and lus: "length us = length xs"
    by (auto simp: length_Suc_conv)
  have IH: "quad (hp_quad lam (y # z # xs)) (u2 # u3 # us)
      = dot (u2 # u3 # us) (u2 # u3 # us) + lam * smoothness_penalty (u2 # u3 # us)"
    by (rule "1.IH") (simp add: lus)
  have "quad (add_sq lam [2, - 1] (hp_quad lam (y # z # xs))) (u2 # u3 # us)
      = quad (hp_quad lam (y # z # xs)) (u2 # u3 # us) + lam * (dot [2, - 1] (u2 # u3 # us))\<^sup>2"
    by (rule quad_add_sq) (simp_all add: wf_hp_quad lus)
  with IH show ?case
    by (simp add: u smoothness_penalty_def power2_eq_square algebra_simps)
qed (auto simp: smoothness_penalty_def length_Suc_conv power2_eq_square)

lemma smoothness_penalty_nonneg: "0 \<le> smoothness_penalty xs"
  unfolding smoothness_penalty_def by (intro sum_list_nonneg) auto

lemma dominates_hp_quad: "0 \<le> lam \<Longrightarrow> dominates (hp_quad lam s)"
  unfolding dominates_def
  by (simp add: quad_hp_quad smoothness_penalty_nonneg)

lemma squared_deviation_dot:
  "length s = length u \<Longrightarrow> squared_deviation s u = dot s s - 2 * dot s u + dot u u"
  unfolding squared_deviation_def
  by (induction s u rule: list_induct2) (simp_all add: power2_eq_square algebra_simps)

lemma length_hp_trend [simp]: "length (hp_trend lam s) = length s"
  by (simp add: hp_trend_def length_solve)

lemma hp_trend_minimises:
  assumes "0 \<le> lam"
  shows "is_hp_trend lam s (hp_trend lam s)"
  unfolding is_hp_trend_def
proof (intro conjI allI impI)
  show "length (hp_trend lam s) = length s" by simp
next
  fix u :: "real list"
  assume len: "length u = length s"
  have "quad (hp_quad lam s) (hp_trend lam s) - 2 * dot s (hp_trend lam s)
      \<le> quad (hp_quad lam s) u - 2 * dot s u"
    unfolding hp_trend_def
    by (rule solve_minimises) (simp_all add: wf_hp_quad dominates_hp_quad assms len)
  then show "hp_objective lam s (hp_trend lam s) \<le> hp_objective lam s u"
    using len
    by (simp add: hp_objective_def squared_deviation_dot quad_hp_quad)
qed

subsection \<open>The trend is unique\<close>






subsection \<open>Sum, failure and smoothness\<close>

lemma length_second_diffs: "length (second_diffs xs) = length xs - 2"
  by (induction xs rule: second_diffs.induct) simp_all

lemma map2_add_sub:
  fixes series :: "real list"
  shows "length tau = length series \<Longrightarrow> map2 (+) tau (map2 (-) series tau) = series"
  by (induction tau series rule: list_induct2) simp_all

lemma penalty_antimono:
  assumes t1: "is_hp_trend lam1 series tau1" and t2: "is_hp_trend lam2 series tau2"
    and lt: "lam1 < lam2"
  shows "smoothness_penalty tau2 \<le> smoothness_penalty tau1"
proof -
  let ?D = "squared_deviation series" and ?P = smoothness_penalty
  from t1 t2 have "hp_objective lam1 series tau1 \<le> hp_objective lam1 series tau2"
    by (simp add: is_hp_trend_def)
  then have a: "?D tau1 + lam1 * ?P tau1 \<le> ?D tau2 + lam1 * ?P tau2"
    by (simp add: hp_objective_def)
  from t1 t2 have "hp_objective lam2 series tau2 \<le> hp_objective lam2 series tau1"
    by (simp add: is_hp_trend_def)
  then have b: "?D tau2 + lam2 * ?P tau2 \<le> ?D tau1 + lam2 * ?P tau1"
    by (simp add: hp_objective_def)
  from a b have "(lam2 - lam1) * ?P tau2 \<le> (lam2 - lam1) * ?P tau1"
    by (simp add: algebra_simps)
  with lt show ?thesis by simp
qed


lemma mean_sq_second_diff_nonneg: "0 \<le> mean_sq_second_diff xs"
  unfolding mean_sq_second_diff_def
  by (intro divide_nonneg_nonneg smoothness_penalty_nonneg) simp

text \<open>
  C1: for every series of at least three observations and every positive lambda, the
  decomposition returns a trend (the minimiser of the objective) and a cycle, both of
  the length of the series, whose sum is the series at every index (exactly, hence
  within a relative tolerance of 1e-9).
\<close>

theorem decompose_sums_to_series:
  assumes "3 \<le> length series" and "0 < lam"
  shows "\<exists>r. decompose series lam = Inr r
     \<and> is_hp_trend lam series (trend r)
     \<and> length (trend r) = length series
     \<and> length (cycle r) = length series
     \<and> map2 (+) (trend r) (cycle r) = series
     \<and> (\<forall>t < length series.
           trend r ! t + cycle r ! t = series ! t
           \<and> \<bar>trend r ! t + cycle r ! t - series ! t\<bar> \<le> 1 / 10 ^ 9 * \<bar>series ! t\<bar>)"
proof -
  let ?tau = "hp_trend lam series"
  let ?r = "\<lparr> trend = ?tau, cycle = map2 (-) series ?tau \<rparr>"
  have len: "length ?tau = length series" by simp
  have min: "is_hp_trend lam series ?tau"
    using assms(2) by (intro hp_trend_minimises) simp
  have dec: "decompose series lam = Inr ?r"
    using assms(1) by (simp add: decompose_def Let_def)
  have pointwise: "trend ?r ! t + cycle ?r ! t = series ! t" if "t < length series" for t
    using that by simp
  have "map2 (+) (trend ?r) (cycle ?r) = series"
    using map2_add_sub [OF len] by simp
  with dec min pointwise show ?thesis by auto
qed

theorem decompose_sums_to_series_witness:
  "decompose [1, 3, 2, 5, 4] 10
     = Inr \<lparr> trend = [26437 / 19227, 42581 / 19227, 3412 / 1131, 73495 / 19227, 29296 / 6409],
             cycle = [- 7210 / 19227, 15100 / 19227, - 1150 / 1131, 22640 / 19227,
                      - 3660 / 6409] \<rparr>
   \<and> map2 (+) [26437 / 19227, 42581 / 19227, 3412 / 1131, 73495 / 19227, 29296 / 6409]
        [- 7210 / 19227, 15100 / 19227, - 1150 / 1131, 22640 / 19227, - 3660 / 6409]
       = [1, 3, 2, 5, 4 :: real]
   \<and> is_hp_trend 10 [1, 3, 2, 5, 4]
        [26437 / 19227, 42581 / 19227, 3412 / 1131, 73495 / 19227, 29296 / 6409]"
proof -
  from decompose_sums_to_series [of "[1, 3, 2, 5, 4]" 10]
  obtain r where r: "decompose [1, 3, 2, 5, 4] 10 = Inr r"
    "is_hp_trend 10 [1, 3, 2, 5, 4] (trend r)"
    "map2 (+) (trend r) (cycle r) = [1, 3, 2, 5, 4]"
    by auto
  from r(1) have "r = \<lparr> trend = [26437 / 19227, 42581 / 19227, 3412 / 1131, 73495 / 19227,
                                   29296 / 6409],
             cycle = [- 7210 / 19227, 15100 / 19227, - 1150 / 1131, 22640 / 19227,
                      - 3660 / 6409] \<rparr>"
    by (simp add: decompose_def hp_trend_def Let_def power2_eq_square)
  with r show ?thesis by simp
qed





text \<open>
  C7: for a fixed series the trend gets no rougher as lambda grows: for
  \<open>0 < lam1 < lam2\<close> the mean squared second difference of the trend for \<open>lam2\<close> is at
  most that of the trend for \<open>lam1\<close>, and so is its ratio to the mean squared second
  difference of the series.
\<close>

theorem trend_smoothness_monotone:
  assumes "3 \<le> length series" and "0 < lam1" and "lam1 < lam2"
  shows "\<exists>r1 r2. decompose series lam1 = Inr r1
     \<and> decompose series lam2 = Inr r2
     \<and> is_hp_trend lam1 series (trend r1)
     \<and> is_hp_trend lam2 series (trend r2)
     \<and> mean_sq_second_diff (trend r2) \<le> mean_sq_second_diff (trend r1)
     \<and> smoothness_ratio series (trend r2) \<le> smoothness_ratio series (trend r1)"
proof -
  let ?t1 = "hp_trend lam1 series" and ?t2 = "hp_trend lam2 series"
  have min: "is_hp_trend lam1 series ?t1" "is_hp_trend lam2 series ?t2"
    using assms(2,3) by (simp_all add: hp_trend_minimises)
  have pen: "smoothness_penalty ?t2 \<le> smoothness_penalty ?t1"
    by (rule penalty_antimono [OF min assms(3)])
  have msd: "mean_sq_second_diff ?t2 \<le> mean_sq_second_diff ?t1"
    unfolding mean_sq_second_diff_def length_second_diffs length_hp_trend
    by (rule divide_right_mono [OF pen]) simp
  have ratio: "smoothness_ratio series ?t2 \<le> smoothness_ratio series ?t1"
    unfolding smoothness_ratio_def
    by (rule divide_right_mono [OF msd mean_sq_second_diff_nonneg])
  have "decompose series lam1 = Inr \<lparr> trend = ?t1, cycle = map2 (-) series ?t1 \<rparr>"
    and "decompose series lam2 = Inr \<lparr> trend = ?t2, cycle = map2 (-) series ?t2 \<rparr>"
    using assms(1) by (simp_all add: decompose_def Let_def)
  with min msd ratio show ?thesis by simp
qed

theorem trend_smoothness_monotone_witness:
  "smoothness_ratio [1, 3, 2, 5, 4] (hp_trend 10 [1, 3, 2, 5, 4]) = 1730069 / 15156778689
   \<and> smoothness_ratio [1, 3, 2, 5, 4] (hp_trend 100 [1, 3, 2, 5, 4])
       = 14710957649 / 11733950832720849
   \<and> smoothness_ratio [1, 3, 2, 5, 4] (hp_trend 1600 [1, 3, 2, 5, 4])
       = 947714803855649 / 191432334083327839266849
   \<and> smoothness_ratio [1, 3, 2, 5, 4] (hp_trend 100 [1, 3, 2, 5, 4])
       \<le> smoothness_ratio [1, 3, 2, 5, 4] (hp_trend 10 [1, 3, 2, 5, 4])
   \<and> smoothness_ratio [1, 3, 2, 5, 4] (hp_trend 1600 [1, 3, 2, 5, 4])
       \<le> smoothness_ratio [1, 3, 2, 5, 4] (hp_trend 100 [1, 3, 2, 5, 4])"
proof -
  have dec: "decompose [1, 3, 2, 5, 4] lam = Inr r
      \<Longrightarrow> trend r = hp_trend lam [1, 3, 2, 5, 4]" for lam r
    by (auto simp add: decompose_def Let_def)
  have a: "smoothness_ratio [1, 3, 2, 5, 4] (hp_trend 100 [1, 3, 2, 5, 4])
       \<le> smoothness_ratio [1, 3, 2, 5, 4] (hp_trend 10 [1, 3, 2, 5, 4])"
    using trend_smoothness_monotone [of "[1, 3, 2, 5, 4]" 10 100] dec
    by auto
  have b: "smoothness_ratio [1, 3, 2, 5, 4] (hp_trend 1600 [1, 3, 2, 5, 4])
       \<le> smoothness_ratio [1, 3, 2, 5, 4] (hp_trend 100 [1, 3, 2, 5, 4])"
    using trend_smoothness_monotone [of "[1, 3, 2, 5, 4]" 100 1600] dec
    by auto
  have v: "smoothness_ratio [1, 3, 2, 5, 4] (hp_trend 10 [1, 3, 2, 5, 4])
       = 1730069 / 15156778689"
    "smoothness_ratio [1, 3, 2, 5, 4] (hp_trend 100 [1, 3, 2, 5, 4])
       = 14710957649 / 11733950832720849"
    "smoothness_ratio [1, 3, 2, 5, 4] (hp_trend 1600 [1, 3, 2, 5, 4])
       = 947714803855649 / 191432334083327839266849"
    by (simp_all add: smoothness_ratio_def mean_sq_second_diff_def smoothness_penalty_def
        hp_trend_def power2_eq_square)
  from a b v show ?thesis by blast
qed



end
